theory Spec2Isabelle
  imports Main "HOL-Library.Char_ord" "HOL-Library.List_Lexorder"
    "HOL-Library.Code_Target_Numeral"
begin

section \<open>MiniGit: object model, history graph and merge engine\<close>

text \<open>
  A shallow embedding of the C++ sources \<^verbatim>\<open>utils.cpp\<close>, \<^verbatim>\<open>blob.cpp\<close>,
  \<^verbatim>\<open>branch.cpp\<close>, \<^verbatim>\<open>commit.cpp\<close> and \<^verbatim>\<open>minigit.cpp\<close>.
  \<^verbatim>\<open>std::string\<close> is \<^typ>\<open>string\<close> (a list of bytes), \<^verbatim>\<open>size_t\<close> is a natural number
  below \<open>2 ^ 64\<close>, \<^verbatim>\<open>std::time_t\<close> is a signed 64-bit integer, a null
  \<^verbatim>\<open>shared_ptr\<close> is \<open>None\<close>, and an uncaught C++ exception is the left injection of a
  sum.
\<close>

subsection \<open>Failures\<close>

text \<open>
  \<^verbatim>\<open>std::stoul\<close> and \<^verbatim>\<open>std::stoll\<close> throw \<^verbatim>\<open>std::invalid_argument\<close> and
  \<^verbatim>\<open>std::out_of_range\<close>; \<^verbatim>\<open>std::map::at\<close> throws \<^verbatim>\<open>std::out_of_range\<close>. Nothing in
  the sources catches them. Dereferencing a null \<^verbatim>\<open>shared_ptr\<close> is recorded as a failure
  of its own.
\<close>

datatype failure = invalid_argument | out_of_range | null_dereference

subsection \<open>String helpers\<close>

abbreviation nl :: char where
  "nl \<equiv> CHR 0x0A"

abbreviation quote :: char where
  "quote \<equiv> CHR 0x27"

text \<open>\<^verbatim>\<open>s.starts_with(p)\<close>.\<close>

definition starts_with :: "string \<Rightarrow> string \<Rightarrow> bool" where
  "starts_with s p = (take (length p) s = p)"

text \<open>
  \<^verbatim>\<open>utils::split\<close>: \<^verbatim>\<open>while (std::getline(ss, token, delimiter)) tokens.push_back(token)\<close>.
  \<^verbatim>\<open>getline\<close> fails only when the stream is already exhausted; otherwise it
  extracts the characters before the next delimiter and consumes the delimiter.
\<close>

function split :: "string \<Rightarrow> char \<Rightarrow> string list" where
  "split str delimiter =
     (if str = [] then []
      else takeWhile (\<lambda>c. c \<noteq> delimiter) str
             # split (drop 1 (dropWhile (\<lambda>c. c \<noteq> delimiter) str)) delimiter)"
  by pat_completeness auto
termination
proof (relation "measure (\<lambda>(str, delimiter). length str)")
  show "wf (measure (\<lambda>(str, delimiter). length str))" by simp
next
  fix str :: string and delimiter :: char
  assume "str \<noteq> []"
  then have "0 < length str" by simp
  moreover have "length (dropWhile (\<lambda>c. c \<noteq> delimiter) str) \<le> length str"
    by (rule length_dropWhile_le)
  ultimately have "length (dropWhile (\<lambda>c. c \<noteq> delimiter) str) - 1 < length str"
    by arith
  then have "length (drop 1 (dropWhile (\<lambda>c. c \<noteq> delimiter) str)) < length str"
    by simp
  then show "((drop 1 (dropWhile (\<lambda>c. c \<noteq> delimiter) str), delimiter), (str, delimiter))
               \<in> measure (\<lambda>(str, delimiter). length str)"
    by simp
qed

declare split.simps [simp del]

text \<open>\<^verbatim>\<open>operator<<\<close> on an unsigned integer: its decimal digits.\<close>

definition digit_char :: "nat \<Rightarrow> char" where
  "digit_char n = char_of (48 + n)"

function to_dec :: "nat \<Rightarrow> string" where
  "to_dec n = (if n < 10 then [digit_char n] else to_dec (n div 10) @ [digit_char (n mod 10)])"
  by pat_completeness auto
termination
  by (relation "measure (\<lambda>n. n)") auto

declare to_dec.simps [simp del]

text \<open>\<^verbatim>\<open>operator<<\<close> on a \<^verbatim>\<open>std::time_t\<close> (a signed integer).\<close>

definition to_dec_signed :: "int \<Rightarrow> string" where
  "to_dec_signed i = (if i < 0 then CHR ''-'' # to_dec (nat (- i)) else to_dec (nat i))"

text \<open>
  \<^verbatim>\<open>std::stoul(s)\<close> and \<^verbatim>\<open>std::stoll(s)\<close> (base 10, as \<^verbatim>\<open>strtoul\<close> and \<^verbatim>\<open>strtoll\<close>):
  leading white space is skipped, one sign is accepted, the longest run of digits is
  read and what follows is ignored. No digit: \<^verbatim>\<open>std::invalid_argument\<close>. A value that
  does not fit: \<^verbatim>\<open>std::out_of_range\<close>. \<^verbatim>\<open>strtoul\<close> negates a value with a minus sign
  modulo \<open>2 ^ 64\<close>.
\<close>

definition is_space :: "char \<Rightarrow> bool" where
  "is_space c = (c \<in> set [CHR 0x20, CHR 0x09, CHR 0x0A, CHR 0x0B, CHR 0x0C, CHR 0x0D])"

definition is_digit :: "char \<Rightarrow> bool" where
  "is_digit c = (48 \<le> (of_char c :: nat) \<and> (of_char c :: nat) \<le> 57)"

definition digit_val :: "char \<Rightarrow> nat" where
  "digit_val c = of_char c - 48"

definition dec_val :: "string \<Rightarrow> nat" where
  "dec_val ds = foldl (\<lambda>acc c. acc * 10 + digit_val c) 0 ds"

definition sign_and_digits :: "string \<Rightarrow> bool \<times> string" where
  "sign_and_digits s =
     (let s1 = dropWhile is_space s in
      case s1 of
        [] \<Rightarrow> (False, [])
      | c # r \<Rightarrow>
          if c = CHR ''-'' then (True, takeWhile is_digit r)
          else if c = CHR ''+'' then (False, takeWhile is_digit r)
          else (False, takeWhile is_digit s1))"

definition stoul :: "string \<Rightarrow> failure + nat" where
  "stoul s =
     (case sign_and_digits s of (neg, ds) \<Rightarrow>
        if ds = [] then Inl invalid_argument
        else if dec_val ds > 2 ^ 64 - 1 then Inl out_of_range
        else Inr (if neg then (2 ^ 64 - dec_val ds) mod 2 ^ 64 else dec_val ds))"

definition stoll :: "string \<Rightarrow> failure + int" where
  "stoll s =
     (case sign_and_digits s of (neg, ds) \<Rightarrow>
        if ds = [] then Inl invalid_argument
        else let v = (if neg then - int (dec_val ds) else int (dec_val ds)) in
          if v < - (2 ^ 63) \<or> v > 2 ^ 63 - 1 then Inl out_of_range
          else Inr v)"

text \<open>\<^verbatim>\<open>utils::string_to_timestamp\<close>.\<close>

definition string_to_timestamp :: "string \<Rightarrow> failure + int" where
  "string_to_timestamp str = stoll str"

text \<open>
  \<^verbatim>\<open>data.find(c, pos)\<close>: the index of the first \<open>c\<close> at or after \<open>pos\<close>, or
  \<^verbatim>\<open>std::string::npos\<close>, the largest \<^verbatim>\<open>size_t\<close>.
\<close>

definition npos :: nat where
  "npos = 2 ^ 64 - 1"

definition str_find :: "string \<Rightarrow> char \<Rightarrow> nat \<Rightarrow> nat" where
  "str_find s c pos =
     (if c \<in> set (drop pos s) then pos + length (takeWhile (\<lambda>x. x \<noteq> c) (drop pos s))
      else npos)"

text \<open>Addition on \<^verbatim>\<open>size_t\<close> wraps.\<close>

definition size_add :: "nat \<Rightarrow> nat \<Rightarrow> nat" where
  "size_add a b = (a + b) mod 2 ^ 64"

subsection \<open>\<^verbatim>\<open>std::map\<close> with string keys\<close>

text \<open>
  A \<^verbatim>\<open>std::map\<close> is kept as its sequence of entries in iteration order, which is
  ascending key order; \<^verbatim>\<open>m[k] = v\<close> replaces the entry for \<open>k\<close> or inserts it at its
  place. \<^verbatim>\<open>m.find(k)\<close> is \<^const>\<open>map_of\<close>.
\<close>

fun map_assign :: "string \<Rightarrow> 'v \<Rightarrow> (string \<times> 'v) list \<Rightarrow> (string \<times> 'v) list" where
  "map_assign k v [] = [(k, v)]"
| "map_assign k v ((k', v') # m) =
     (if k = k' then (k, v) # m
      else if k < k' then (k, v) # (k', v') # m
      else (k', v') # map_assign k v m)"

subsection \<open>Blob\<close>

record Blob =
  b_hash :: string
  b_content :: string
  b_filename :: string

text \<open>
  \<^verbatim>\<open>Blob::Blob\<close>. \<^verbatim>\<open>utils::sha1_hash\<close> calls OpenSSL; it is the parameter
  \<open>sha1_hash\<close> of every operation that builds a blob.
\<close>

definition Blob_new :: "(string \<Rightarrow> string) \<Rightarrow> string \<Rightarrow> string \<Rightarrow> Blob" where
  "Blob_new sha1_hash content filename =
     \<lparr>b_hash = sha1_hash content, b_content = content, b_filename = filename\<rparr>"

definition Blob_to_string :: "Blob \<Rightarrow> string" where
  "Blob_to_string b =
     ''blob '' @ b_hash b @ [nl] @
     ''filename '' @ b_filename b @ [nl] @
     ''content '' @ to_dec (length (b_content b)) @ [nl] @
     b_content b"

text \<open>
  \<^verbatim>\<open>Blob::from_string\<close>. The blob it builds gets the hash of its first line
  (\<^verbatim>\<open>set_hash\<close> overwrites the one the constructor computed).
\<close>

definition Blob_from_string :: "string \<Rightarrow> failure + Blob option" where
  "Blob_from_string data =
     (let lines = split data nl in
      if length lines < 4 then Inr None
      else
        let blob_line = lines ! 0;
            filename_line = lines ! 1;
            content_length_line = lines ! 2
        in
        if \<not> starts_with blob_line ''blob '' then Inr None
        else if \<not> starts_with filename_line ''filename '' then Inr None
        else if \<not> starts_with content_length_line ''content '' then Inr None
        else
          case stoul (drop 8 content_length_line) of
            Inl e \<Rightarrow> Inl e
          | Inr content_length \<Rightarrow>
              let content_start =
                    size_add (str_find data nl
                      (size_add (str_find data nl (size_add (str_find data nl 0) 1)) 1)) 1;
                  content = (if content_start < length data then drop content_start data else [])
              in Inr (Some \<lparr>b_hash = drop 5 blob_line, b_content = content,
                            b_filename = drop 9 filename_line\<rparr>))"

subsection \<open>Branch\<close>

record Branch =
  br_name :: string
  br_commit_hash :: string

definition Branch_new :: "string \<Rightarrow> string \<Rightarrow> Branch" where
  "Branch_new name commit_hash = \<lparr>br_name = name, br_commit_hash = commit_hash\<rparr>"

definition Branch_to_string :: "Branch \<Rightarrow> string" where
  "Branch_to_string b =
     ''branch '' @ br_name b @ [nl] @ ''commit '' @ br_commit_hash b @ [nl]"


subsection \<open>Commit\<close>

record Commit =
  c_hash :: string
  c_message :: string
  c_author :: string
  c_timestamp :: int
  parent_hashes :: "string list"
  file_blobs :: "(string \<times> string) list"

text \<open>
  \<^verbatim>\<open>Commit::Commit\<close> sets the message and the author and reads the clock, here the
  parameter \<open>now\<close>. It leaves \<^verbatim>\<open>hash\<close> default-constructed, the empty string.
\<close>

definition Commit_new :: "string \<Rightarrow> string \<Rightarrow> int \<Rightarrow> Commit" where
  "Commit_new msg auth now =
     \<lparr>c_hash = [], c_message = msg, c_author = auth, c_timestamp = now,
      parent_hashes = [], file_blobs = []\<rparr>"

definition has_parent :: "Commit \<Rightarrow> string \<Rightarrow> bool" where
  "has_parent c parent_hash = (parent_hash \<in> set (parent_hashes c))"

definition add_parent :: "string \<Rightarrow> Commit \<Rightarrow> Commit" where
  "add_parent parent_hash c =
     (if \<not> has_parent c parent_hash
      then c\<lparr>parent_hashes := parent_hashes c @ [parent_hash]\<rparr> else c)"

definition add_file :: "string \<Rightarrow> string \<Rightarrow> Commit \<Rightarrow> Commit" where
  "add_file filename blob_hash c = c\<lparr>file_blobs := map_assign filename blob_hash (file_blobs c)\<rparr>"

definition is_initial_commit :: "Commit \<Rightarrow> bool" where
  "is_initial_commit c = (parent_hashes c = [])"

definition Commit_to_string :: "Commit \<Rightarrow> string" where
  "Commit_to_string c =
     ''commit '' @ c_hash c @ [nl] @
     ''message '' @ c_message c @ [nl] @
     ''author '' @ c_author c @ [nl] @
     ''timestamp '' @ to_dec_signed (c_timestamp c) @ [nl] @
     ''parents '' @ to_dec (length (parent_hashes c)) @ [nl] @
     concat (map (\<lambda>parent. ''parent '' @ parent @ [nl]) (parent_hashes c)) @
     ''files '' @ to_dec (length (file_blobs c)) @ [nl] @
     concat (map (\<lambda>(filename, blob_hash). ''file '' @ filename @ '' '' @ blob_hash @ [nl])
                 (file_blobs c))"

text \<open>
  The two loops of \<^verbatim>\<open>Commit::from_string\<close>. Each runs while its counter is below the
  declared count and \<^verbatim>\<open>line_index < lines.size()\<close>, and steps \<^verbatim>\<open>line_index\<close> whether
  or not the line carries the tag. The first argument is the number of rounds left.
\<close>

fun parse_parents :: "nat \<Rightarrow> string list \<Rightarrow> nat \<Rightarrow> Commit \<Rightarrow> Commit \<times> nat" where
  "parse_parents 0 lines line_index c = (c, line_index)"
| "parse_parents (Suc n) lines line_index c =
     (if line_index < length lines
      then parse_parents n lines (line_index + 1)
             (if starts_with (lines ! line_index) ''parent ''
              then add_parent (drop 7 (lines ! line_index)) c else c)
      else (c, line_index))"

definition parse_file_line :: "string \<Rightarrow> Commit \<Rightarrow> Commit" where
  "parse_file_line line c =
     (if starts_with line ''file '' then
        let file_info = drop 5 line in
        if CHR '' '' \<in> set file_info
        then add_file (takeWhile (\<lambda>x. x \<noteq> CHR '' '') file_info)
                      (drop 1 (dropWhile (\<lambda>x. x \<noteq> CHR '' '') file_info)) c
        else c
      else c)"

fun parse_files :: "nat \<Rightarrow> string list \<Rightarrow> nat \<Rightarrow> Commit \<Rightarrow> Commit" where
  "parse_files 0 lines line_index c = c"
| "parse_files (Suc n) lines line_index c =
     (if line_index < length lines
      then parse_files n lines (line_index + 1) (parse_file_line (lines ! line_index) c)
      else c)"

text \<open>
  \<^verbatim>\<open>Commit::from_string\<close>. The commit it builds gets the time stamp of its fourth line
  (the assignment overwrites the clock value of the constructor).
\<close>

definition Commit_from_string :: "string \<Rightarrow> failure + Commit option" where
  "Commit_from_string data =
     (let lines = split data nl in
      if length lines < 5 then Inr None
      else
        let commit_line = lines ! 0;
            message_line = lines ! 1;
            author_line = lines ! 2;
            timestamp_line = lines ! 3;
            parents_count_line = lines ! 4
        in
        if \<not> starts_with commit_line ''commit '' then Inr None
        else if \<not> starts_with message_line ''message '' then Inr None
        else if \<not> starts_with author_line ''author '' then Inr None
        else if \<not> starts_with timestamp_line ''timestamp '' then Inr None
        else
          case string_to_timestamp (drop 10 timestamp_line) of
            Inl e \<Rightarrow> Inl e
          | Inr timestamp \<Rightarrow>
              if \<not> starts_with parents_count_line ''parents '' then Inr None
              else
                (case stoul (drop 8 parents_count_line) of
                   Inl e \<Rightarrow> Inl e
                 | Inr parents_count \<Rightarrow>
                     (case parse_parents parents_count lines 5
                             \<lparr>c_hash = drop 7 commit_line, c_message = drop 8 message_line,
                              c_author = drop 7 author_line, c_timestamp = timestamp,
                              parent_hashes = [], file_blobs = []\<rparr> of
                        (commit, line_index) \<Rightarrow>
                          if line_index < length lines
                              \<and> starts_with (lines ! line_index) ''files ''
                          then
                            (case stoul (drop 6 (lines ! line_index)) of
                               Inl e \<Rightarrow> Inl e
                             | Inr files_count \<Rightarrow>
                                 Inr (Some (parse_files files_count lines (line_index + 1)
                                              commit)))
                          else Inr (Some commit))))"

subsection \<open>The repository\<close>

text \<open>
  The members of class \<^verbatim>\<open>MiniGit\<close> and the files below \<^verbatim>\<open>.minigit\<close>: \<open>objects\<close> and
  \<open>refs\<close> hold the content of each file of the two directories by file name,
  \<open>head_file\<close> the content of \<^verbatim>\<open>HEAD\<close> when the file exists, and \<open>work_tree\<close> the
  files \<^verbatim>\<open>add\<close> reads.
\<close>

record MiniGit =
  is_initialized :: bool
  current_branch :: string
  branches :: "string \<rightharpoonup> Branch"
  staging_area :: "(string \<times> Blob) list"
  objects :: "string \<rightharpoonup> string"
  refs :: "string \<rightharpoonup> string"
  head_file :: "string option"
  work_tree :: "string \<rightharpoonup> string"

text \<open>What the \<^verbatim>\<open>utils::print_*\<close> functions are called with.\<close>

datatype report = print_success string | print_error string | print_warning string
  | print_info string

text \<open>
  What a call leaves behind: the value it returns, what it prints, the repository, and
  the \<^verbatim>\<open>Commit\<close> object it built, if it built one (a local variable of the source).
\<close>

record outcome =
  returned :: bool
  printed :: "report list"
  created :: "Commit option"
  repo :: MiniGit

text \<open>
  \<^verbatim>\<open>utils::read_file\<close>, \<^verbatim>\<open>utils::write_file\<close> and \<^verbatim>\<open>utils::file_exists\<close> on the
  files of one directory. A file that cannot be opened reads as the empty string and is
  not written. The empty file name is the path of the directory itself, which cannot be
  opened as a file.
\<close>

definition read_file :: "(string \<rightharpoonup> string) \<Rightarrow> string \<Rightarrow> string" where
  "read_file dir filename =
     (if filename = [] then [] else case dir filename of None \<Rightarrow> [] | Some content \<Rightarrow> content)"

definition write_file :: "(string \<rightharpoonup> string) \<Rightarrow> string \<Rightarrow> string \<Rightarrow> (string \<rightharpoonup> string)" where
  "write_file dir filename content = (if filename = [] then dir else dir(filename \<mapsto> content))"

definition save_blob :: "Blob \<Rightarrow> MiniGit \<Rightarrow> MiniGit" where
  "save_blob blob st = st\<lparr>objects := write_file (objects st) (b_hash blob) (Blob_to_string blob)\<rparr>"

definition load_blob :: "MiniGit \<Rightarrow> string \<Rightarrow> failure + Blob option" where
  "load_blob st h =
     (let blob_data = read_file (objects st) h in
      if blob_data = [] then Inr None else Blob_from_string blob_data)"

definition save_commit :: "Commit \<Rightarrow> MiniGit \<Rightarrow> MiniGit" where
  "save_commit commit st =
     st\<lparr>objects := write_file (objects st) (c_hash commit) (Commit_to_string commit)\<rparr>"

definition load_commit :: "MiniGit \<Rightarrow> string \<Rightarrow> failure + Commit option" where
  "load_commit st h =
     (let commit_data = read_file (objects st) h in
      if commit_data = [] then Inr None else Commit_from_string commit_data)"

definition save_head :: "string \<Rightarrow> MiniGit \<Rightarrow> MiniGit" where
  "save_head commit_hash st = st\<lparr>head_file := Some commit_hash\<rparr>"

definition load_head :: "MiniGit \<Rightarrow> string" where
  "load_head st = (case head_file st of None \<Rightarrow> [] | Some content \<Rightarrow> content)"

definition save_branch :: "Branch \<Rightarrow> MiniGit \<Rightarrow> MiniGit" where
  "save_branch b st = st\<lparr>refs := write_file (refs st) (br_name b) (Branch_to_string b)\<rparr>"

text \<open>
  A \<^verbatim>\<open>MiniGit\<close> object constructed where no \<^verbatim>\<open>.minigit\<close> directory exists, over the
  files \<open>files\<close> of the working directory.
\<close>

definition MiniGit_new :: "(string \<rightharpoonup> string) \<Rightarrow> MiniGit" where
  "MiniGit_new files =
     \<lparr>is_initialized = False, current_branch = [], branches = Map.empty, staging_area = [],
      objects = Map.empty, refs = Map.empty, head_file = None, work_tree = files\<rparr>"

definition not_a_repository :: "MiniGit \<Rightarrow> outcome" where
  "not_a_repository st =
     \<lparr>returned = False, printed = [print_error ''Not a MiniGit repository''], created = None,
      repo = st\<rparr>"

definition init :: "MiniGit \<Rightarrow> outcome" where
  "init st =
     (if is_initialized st
      then \<lparr>returned = True, printed = [print_warning ''MiniGit repository already initialized''],
            created = None, repo = st\<rparr>
      else
        let main_branch = Branch_new ''main'' [];
            st1 = st\<lparr>current_branch := ''main'',
                      branches := (branches st)(''main'' \<mapsto> main_branch)\<rparr>;
            st2 = save_branch main_branch st1
        in \<lparr>returned = True, printed = [print_success ''Initialized empty MiniGit repository''],
            created = None, repo = st2\<lparr>is_initialized := True\<rparr>\<rparr>)"

definition file_exists :: "(string \<rightharpoonup> string) \<Rightarrow> string \<Rightarrow> bool" where
  "file_exists dir filename = (filename \<noteq> [] \<and> dir filename \<noteq> None)"

definition add :: "(string \<Rightarrow> string) \<Rightarrow> string \<Rightarrow> MiniGit \<Rightarrow> outcome" where
  "add sha1_hash filename st =
     (if \<not> is_initialized st then not_a_repository st
      else if \<not> file_exists (work_tree st) filename
      then \<lparr>returned = False,
            printed = [print_error (''File '' @ [quote] @ filename @ [quote] @ '' does not exist'')],
            created = None, repo = st\<rparr>
      else
        let content = read_file (work_tree st) filename;
            blob = Blob_new sha1_hash content filename
        in \<lparr>returned = True,
            printed = [print_success (''Added '' @ [quote] @ filename @ [quote] @ '' to staging area'')],
            created = None,
            repo = st\<lparr>staging_area := map_assign filename blob (staging_area st)\<rparr>\<rparr>)"

text \<open>
  The loop of \<^verbatim>\<open>MiniGit::commit\<close> over the staging area: each blob is saved and entered
  in the commit's file table.
\<close>

fun add_staged_files :: "(string \<times> Blob) list \<Rightarrow> Commit \<times> MiniGit \<Rightarrow> Commit \<times> MiniGit" where
  "add_staged_files [] (commit, st) = (commit, st)"
| "add_staged_files ((filename, blob) # rest) (commit, st) =
     add_staged_files rest (add_file filename (b_hash blob) commit, save_blob blob st)"

text \<open>
  The update of the current branch at the end of \<^verbatim>\<open>commit\<close> and \<^verbatim>\<open>merge\<close>.
\<close>

definition update_current_branch :: "string \<Rightarrow> MiniGit \<Rightarrow> MiniGit" where
  "update_current_branch commit_hash st =
     (case branches st (current_branch st) of
        None \<Rightarrow> st
      | Some b \<Rightarrow>
          let b' = b\<lparr>br_commit_hash := commit_hash\<rparr> in
          save_branch b' (st\<lparr>branches := (branches st)(current_branch st \<mapsto> b')\<rparr>))"

definition commit :: "int \<Rightarrow> string \<Rightarrow> MiniGit \<Rightarrow> outcome" where
  "commit now message st =
     (if \<not> is_initialized st then not_a_repository st
      else if staging_area st = []
      then \<lparr>returned = False, printed = [print_error ''No changes staged for commit''],
            created = None, repo = st\<rparr>
      else
        let commit0 = Commit_new message ''user'' now;
            head_commit = load_head st;
            commit1 = (if head_commit \<noteq> [] then add_parent head_commit commit0 else commit0)
        in
        case add_staged_files (staging_area st) (commit1, st) of
          (commit2, st1) \<Rightarrow>
            let st2 = save_commit commit2 st1;
                st3 = save_head (c_hash commit2) st2;
                st4 = update_current_branch (c_hash commit2) st3;
                st5 = st4\<lparr>staging_area := []\<rparr>
            in \<lparr>returned = True,
                printed =
                  [print_success (''Committed '' @ to_dec (length (file_blobs commit2)) @ '' files''),
                   print_info (''Commit: '' @ take 8 (c_hash commit2))],
                created = Some commit2, repo = st5\<rparr>)"

definition branch :: "string \<Rightarrow> MiniGit \<Rightarrow> outcome" where
  "branch branch_name st =
     (if \<not> is_initialized st then not_a_repository st
      else if branches st branch_name \<noteq> None
      then \<lparr>returned = False,
            printed = [print_error (''Branch '' @ [quote] @ branch_name @ [quote] @ '' already exists'')],
            created = None, repo = st\<rparr>
      else
        let new_branch = Branch_new branch_name (load_head st);
            st1 = st\<lparr>branches := (branches st)(branch_name \<mapsto> new_branch)\<rparr>;
            st2 = save_branch new_branch st1
        in \<lparr>returned = True,
            printed = [print_success (''Created branch '' @ [quote] @ branch_name @ [quote])],
            created = None, repo = st2\<rparr>)"

definition checkout :: "string \<Rightarrow> MiniGit \<Rightarrow> failure + outcome" where
  "checkout target st =
     (if \<not> is_initialized st then Inr (not_a_repository st)
      else
        case branches st target of
          Some b \<Rightarrow>
            let st1 = st\<lparr>current_branch := target\<rparr>;
                commit_hash = br_commit_hash b;
                st2 = (if commit_hash \<noteq> [] then save_head commit_hash st1 else st1)
            in Inr \<lparr>returned = True,
                    printed = [print_success (''Switched to branch '' @ [quote] @ target @ [quote])],
                    created = None, repo = st2\<rparr>
        | None \<Rightarrow>
            (case load_commit st target of
               Inl e \<Rightarrow> Inl e
             | Inr (Some c) \<Rightarrow>
                 Inr \<lparr>returned = True,
                      printed = [print_success (''Switched to commit '' @ take 8 target)],
                      created = None, repo = save_head target st\<rparr>
             | Inr None \<Rightarrow>
                 Inr \<lparr>returned = False,
                      printed = [print_error (''Target '' @ [quote] @ target @ [quote] @ '' not found'')],
                      created = None, repo = st\<rparr>))"

subsection \<open>History graph\<close>

text \<open>
  The loop of \<^verbatim>\<open>MiniGit::get_commit_ancestors\<close>, with the vector \<open>ancestors\<close> and the
  variable \<open>current\<close> as arguments. The loop has no bound of its own, so the result is
  \<open>None\<close> when it runs forever.
\<close>

partial_function (option) ancestors_loop ::
  "MiniGit \<Rightarrow> string list \<Rightarrow> string \<Rightarrow> (failure + string list) option" where
  "ancestors_loop st ancestors current =
     (if current = [] then Some (Inr ancestors)
      else
        case load_commit st current of
          Inl e \<Rightarrow> Some (Inl e)
        | Inr None \<Rightarrow> Some (Inr ancestors)
        | Inr (Some c) \<Rightarrow>
            if is_initial_commit c then Some (Inr (ancestors @ [current]))
            else ancestors_loop st (ancestors @ [current])
                   (case parent_hashes c of [] \<Rightarrow> [] | parent # others \<Rightarrow> parent))"

declare ancestors_loop.simps [code]

definition get_commit_ancestors :: "MiniGit \<Rightarrow> string \<Rightarrow> (failure + string list) option" where
  "get_commit_ancestors st commit_hash = ancestors_loop st [] commit_hash"

definition find_lowest_common_ancestor ::
  "MiniGit \<Rightarrow> string \<Rightarrow> string \<Rightarrow> (failure + string) option" where
  "find_lowest_common_ancestor st commit1_hash commit2_hash =
     (case get_commit_ancestors st commit1_hash of
        None \<Rightarrow> None
      | Some (Inl e) \<Rightarrow> Some (Inl e)
      | Some (Inr ancestors1) \<Rightarrow>
          (case get_commit_ancestors st commit2_hash of
             None \<Rightarrow> None
           | Some (Inl e) \<Rightarrow> Some (Inl e)
           | Some (Inr ancestors2) \<Rightarrow>
               Some (Inr (case find (\<lambda>ancestor. ancestor \<in> set ancestors1) ancestors2 of
                            None \<Rightarrow> []
                          | Some ancestor \<Rightarrow> ancestor))))"

subsection \<open>Merge engine\<close>

definition changed_files ::
  "(string \<times> string) list \<Rightarrow> (string \<times> string) list \<Rightarrow> (string \<times> string) list" where
  "changed_files from_files to_files =
     foldl (\<lambda>changes (filename, blob_hash).
              if map_of from_files filename = None \<or> map_of from_files filename \<noteq> Some blob_hash
              then map_assign filename blob_hash changes else changes)
           [] to_files"

definition get_file_changes ::
  "MiniGit \<Rightarrow> string \<Rightarrow> string \<Rightarrow> failure + (string \<times> string) list" where
  "get_file_changes st from_hash to_hash =
     (case load_commit st from_hash of
        Inl e \<Rightarrow> Inl e
      | Inr from_commit \<Rightarrow>
          (case load_commit st to_hash of
             Inl e \<Rightarrow> Inl e
           | Inr to_commit \<Rightarrow>
               (case (from_commit, to_commit) of
                  (Some f, Some t) \<Rightarrow> Inr (changed_files (file_blobs f) (file_blobs t))
                | _ \<Rightarrow> Inr [])))"

definition merge_files :: "string \<Rightarrow> string \<Rightarrow> string \<Rightarrow> string" where
  "merge_files base_content ours_content theirs_content =
     (if ours_content = theirs_content then ours_content
      else if base_content = ours_content then theirs_content
      else if base_content = theirs_content then ours_content
      else base_content @ [nl] @ ''<<<<<<< HEAD'' @ [nl] @
           ours_content @ [nl] @ ''======='' @ [nl] @
           theirs_content @ [nl] @ ''>>>>>>> MERGE'' @ [nl])"

text \<open>
  What the first loop of \<^verbatim>\<open>MiniGit::merge\<close> carries from one file to the next.
\<close>

record merge_state =
  m_repo :: MiniGit
  merged_files :: "(string \<times> string) list"
  has_conflicts :: bool
  m_printed :: "report list"

text \<open>
  The body of the first loop of \<^verbatim>\<open>MiniGit::merge\<close>, for one entry
  \<open>(filename, blob_hash)\<close> of \<^verbatim>\<open>target_changes\<close>. In the conflict branch
  \<^verbatim>\<open>load_commit(lca)->get_files().at(filename)\<close> dereferences the result of
  \<^verbatim>\<open>load_commit\<close> and throws \<^verbatim>\<open>std::out_of_range\<close> when the base commit has no such
  file.
\<close>

definition merge_target_file ::
  "(string \<Rightarrow> string) \<Rightarrow> string \<Rightarrow> (string \<times> string) list \<Rightarrow> string \<times> string
     \<Rightarrow> merge_state \<Rightarrow> failure + merge_state" where
  "merge_target_file sha1_hash lca current_changes entry ms =
     (case entry of (filename, blob_hash) \<Rightarrow>
        (case map_of current_changes filename of
           None \<Rightarrow> Inr (ms\<lparr>merged_files := map_assign filename blob_hash (merged_files ms)\<rparr>)
         | Some ours_hash \<Rightarrow>
             if ours_hash = blob_hash
             then Inr (ms\<lparr>merged_files := map_assign filename blob_hash (merged_files ms)\<rparr>)
             else
               let ms1 = ms\<lparr>has_conflicts := True,
                            m_printed := m_printed ms
                               @ [print_warning (''CONFLICT: both modified '' @ filename)]\<rparr>
               in
               (case load_commit (m_repo ms1) lca of
                  Inl e \<Rightarrow> Inl e
                | Inr None \<Rightarrow> Inl null_dereference
                | Inr (Some base_commit) \<Rightarrow>
                    (case map_of (file_blobs base_commit) filename of
                       None \<Rightarrow> Inl out_of_range
                     | Some base_hash \<Rightarrow>
                         (case load_blob (m_repo ms1) base_hash of
                            Inl e \<Rightarrow> Inl e
                          | Inr base_blob \<Rightarrow>
                              (case load_blob (m_repo ms1) ours_hash of
                                 Inl e \<Rightarrow> Inl e
                               | Inr ours_blob \<Rightarrow>
                                   (case load_blob (m_repo ms1) blob_hash of
                                      Inl e \<Rightarrow> Inl e
                                    | Inr theirs_blob \<Rightarrow>
                                        (case (base_blob, ours_blob, theirs_blob) of
                                           (Some base, Some ours, Some theirs) \<Rightarrow>
                                             let merged_blob =
                                                   Blob_new sha1_hash
                                                     (merge_files (b_content base) (b_content ours)
                                                        (b_content theirs))
                                                     filename
                                             in Inr (ms1\<lparr>m_repo := save_blob merged_blob (m_repo ms1),
                                                          merged_files :=
                                                            map_assign filename (b_hash merged_blob)
                                                              (merged_files ms1)\<rparr>)
                                         | _ \<Rightarrow> Inr ms1))))))))"

text \<open>
  The first loop of \<^verbatim>\<open>MiniGit::merge\<close>, over \<^verbatim>\<open>target_changes\<close>; an exception ends
  it.
\<close>

fun merge_target_changes ::
  "(string \<Rightarrow> string) \<Rightarrow> string \<Rightarrow> (string \<times> string) list \<Rightarrow> (string \<times> string) list
     \<Rightarrow> merge_state \<Rightarrow> failure + merge_state" where
  "merge_target_changes sha1_hash lca current_changes [] ms = Inr ms"
| "merge_target_changes sha1_hash lca current_changes (entry # rest) ms =
     (case merge_target_file sha1_hash lca current_changes entry ms of
        Inl e \<Rightarrow> Inl e
      | Inr ms' \<Rightarrow> merge_target_changes sha1_hash lca current_changes rest ms')"

text \<open>The second loop of \<^verbatim>\<open>MiniGit::merge\<close>, over \<^verbatim>\<open>current_changes\<close>.\<close>

definition merge_current_changes ::
  "(string \<times> string) list \<Rightarrow> (string \<times> string) list \<Rightarrow> (string \<times> string) list
     \<Rightarrow> (string \<times> string) list" where
  "merge_current_changes target_changes current_changes merged =
     foldl (\<lambda>merged (filename, blob_hash).
              if map_of target_changes filename = None
              then map_assign filename blob_hash merged else merged)
           merged current_changes"

text \<open>
  \<^verbatim>\<open>MiniGit::merge\<close> from the construction of the merge commit on.
\<close>

definition finish_merge ::
  "int \<Rightarrow> string \<Rightarrow> string \<Rightarrow> string \<Rightarrow> (string \<times> string) list \<Rightarrow> merge_state \<Rightarrow> outcome" where
  "finish_merge now branch_name current_commit target_commit merged ms =
     (let st = m_repo ms;
          merge_message =
            ''Merge branch '' @ [quote] @ branch_name @ [quote] @ '' into '' @ current_branch st;
          merge_commit =
            foldl (\<lambda>c (filename, blob_hash). add_file filename blob_hash c)
              (add_parent target_commit
                 (add_parent current_commit (Commit_new merge_message ''user'' now)))
              merged;
          st1 = save_commit merge_commit st;
          st2 = save_head (c_hash merge_commit) st1;
          st3 = update_current_branch (c_hash merge_commit) st2
      in \<lparr>returned = True,
          printed = m_printed ms
            @ [if has_conflicts ms then print_warning ''Merge completed with conflicts''
               else print_success ''Merge completed successfully''],
          created = Some merge_commit, repo = st3\<rparr>)"

definition merge ::
  "(string \<Rightarrow> string) \<Rightarrow> int \<Rightarrow> string \<Rightarrow> MiniGit \<Rightarrow> (failure + outcome) option" where
  "merge sha1_hash now branch_name st =
     (if \<not> is_initialized st then Some (Inr (not_a_repository st))
      else
        case branches st branch_name of
          None \<Rightarrow>
            Some (Inr \<lparr>returned = False,
                       printed = [print_error (''Branch '' @ [quote] @ branch_name @ [quote]
                                                @ '' does not exist'')],
                       created = None, repo = st\<rparr>)
        | Some target_branch \<Rightarrow>
            let current_commit = load_head st;
                target_commit = br_commit_hash target_branch
            in
            if current_commit = target_commit
            then Some (Inr \<lparr>returned = True, printed = [print_info ''Already up to date''],
                            created = None, repo = st\<rparr>)
            else
              (case find_lowest_common_ancestor st current_commit target_commit of
                 None \<Rightarrow> None
               | Some (Inl e) \<Rightarrow> Some (Inl e)
               | Some (Inr lca) \<Rightarrow>
                   if lca = []
                   then Some (Inr \<lparr>returned = False,
                                   printed = [print_error ''No common ancestor found''],
                                   created = None, repo = st\<rparr>)
                   else
                     (case get_file_changes st lca current_commit of
                        Inl e \<Rightarrow> Some (Inl e)
                      | Inr current_changes \<Rightarrow>
                          (case get_file_changes st lca target_commit of
                             Inl e \<Rightarrow> Some (Inl e)
                           | Inr target_changes \<Rightarrow>
                               (case merge_target_changes sha1_hash lca current_changes
                                       target_changes
                                       \<lparr>m_repo = st, merged_files = [], has_conflicts = False,
                                        m_printed = []\<rparr> of
                                  Inl e \<Rightarrow> Some (Inl e)
                                | Inr ms \<Rightarrow>
                                    Some (Inr (finish_merge now branch_name current_commit
                                                 target_commit
                                                 (merge_current_changes target_changes
                                                    current_changes (merged_files ms))
                                                 ms)))))))"

subsection \<open>Example repositories\<close>

text \<open>
  The operations that hash a blob take the hash function as an argument. The examples
  below hash no blob; they pass this function to have a closed term.
\<close>

definition no_hash :: "string \<Rightarrow> string" where
  "no_hash content = []"

text \<open>
  A repository after \<^verbatim>\<open>init\<close> and \<^verbatim>\<open>branch feat\<close>: no commit yet, both branches hold
  the empty commit hash.
\<close>

definition repo_two_branches :: MiniGit where
  "repo_two_branches = repo (branch ''feat'' (repo (init (MiniGit_new Map.empty))))"

text \<open>
  A repository whose object directory holds a base commit \<open>c0\<close> and two commits
  \<open>c1\<close> and \<open>c2\<close> on top of it, with branch \<open>main\<close> and \<^verbatim>\<open>HEAD\<close> at \<open>c1\<close> and
  branch \<open>feat\<close> at \<open>c2\<close>. File \<open>a.txt\<close> is the same in all three, \<open>c1\<close> adds
  \<open>b.txt\<close> and \<open>c2\<close> adds \<open>c.txt\<close>. The names of the objects are short strings
  in place of forty hexadecimal digits: the operations read an object by its file name
  and never look inside the name.
\<close>

definition commit_c0 :: Commit where
  "commit_c0 =
     \<lparr>c_hash = ''c0'', c_message = ''base'', c_author = ''user'', c_timestamp = 1700000000,
      parent_hashes = [], file_blobs = [(''a.txt'', ''h1'')]\<rparr>"

definition commit_c1 :: Commit where
  "commit_c1 =
     \<lparr>c_hash = ''c1'', c_message = ''ours'', c_author = ''user'', c_timestamp = 1700000001,
      parent_hashes = [''c0''], file_blobs = [(''a.txt'', ''h1''), (''b.txt'', ''h2'')]\<rparr>"

definition commit_c2 :: Commit where
  "commit_c2 =
     \<lparr>c_hash = ''c2'', c_message = ''theirs'', c_author = ''user'', c_timestamp = 1700000002,
      parent_hashes = [''c0''], file_blobs = [(''a.txt'', ''h1''), (''c.txt'', ''h3'')]\<rparr>"

definition repo_diverged :: MiniGit where
  "repo_diverged =
     \<lparr>is_initialized = True, current_branch = ''main'',
      branches = [''main'' \<mapsto> Branch_new ''main'' ''c1'', ''feat'' \<mapsto> Branch_new ''feat'' ''c2''],
      staging_area = [],
      objects = [''c0'' \<mapsto> Commit_to_string commit_c0, ''c1'' \<mapsto> Commit_to_string commit_c1,
                 ''c2'' \<mapsto> Commit_to_string commit_c2],
      refs = [''main'' \<mapsto> Branch_to_string (Branch_new ''main'' ''c1''),
              ''feat'' \<mapsto> Branch_to_string (Branch_new ''feat'' ''c2'')],
      head_file = Some ''c1'', work_tree = Map.empty\<rparr>"

text \<open>
  Blobs as \<^verbatim>\<open>add\<close> builds them, with the SHA-1 of their content: one with content
  \<open>hello\<close>, one with empty content, and two whose file name holds a line feed.
\<close>

definition blob_hello :: Blob where
  "blob_hello = \<lparr>b_hash = ''aaf4c61ddcc5e8a2dabede0f3b482cd9aea9434d'', b_content = ''hello'',
     b_filename = ''a.txt''\<rparr>"

definition blob_empty :: Blob where
  "blob_empty = \<lparr>b_hash = ''da39a3ee5e6b4b0d3255bfef95601890afd80709'', b_content = [],
     b_filename = ''a.txt''\<rparr>"

definition blob_two_line_name :: Blob where
  "blob_two_line_name = \<lparr>b_hash = ''aaf4c61ddcc5e8a2dabede0f3b482cd9aea9434d'', b_content = ''hello'',
     b_filename = ''a'' @ [nl] @ ''b''\<rparr>"

definition blob_header_name :: Blob where
  "blob_header_name = \<lparr>b_hash = ''da39a3ee5e6b4b0d3255bfef95601890afd80709'', b_content = [],
     b_filename = ''f1'' @ [nl] @ ''content 5'' @ [nl] @ ''whatever''\<rparr>"








text \<open>
  A repository whose only commit names itself as its parent.
\<close>

definition commit_self_parent :: Commit where
  "commit_self_parent =
     \<lparr>c_hash = ''a'', c_message = ''loop'', c_author = ''user'', c_timestamp = 1700000000,
      parent_hashes = [''a''], file_blobs = []\<rparr>"

definition repo_cycle :: MiniGit where
  "repo_cycle =
     \<lparr>is_initialized = True, current_branch = ''main'',
      branches = [''main'' \<mapsto> Branch_new ''main'' ''a''],
      staging_area = [],
      objects = [''a'' \<mapsto> Commit_to_string commit_self_parent],
      refs = [''main'' \<mapsto> Branch_to_string (Branch_new ''main'' ''a'')],
      head_file = Some ''a'', work_tree = Map.empty\<rparr>"


text \<open>
  A blob with content \<open>world\<close>, and repositories with one staged file: two straight
  after \<^verbatim>\<open>init\<close>, and one whose \<^verbatim>\<open>HEAD\<close> is the commit \<open>c0\<close> with file \<open>a.txt\<close>.
  The staging area holds the blob that \<^verbatim>\<open>add\<close> builds, with the SHA-1 of the content.
\<close>

definition blob_world :: Blob where
  "blob_world = \<lparr>b_hash = ''7c211433f02071597741e6ff5a8ea34789abbf43'', b_content = ''world'',
     b_filename = ''b.txt''\<rparr>"

definition repo_staged_hello :: MiniGit where
  "repo_staged_hello =
     (repo (init (MiniGit_new [''a.txt'' \<mapsto> ''hello''])))\<lparr>staging_area := [(''a.txt'', blob_hello)]\<rparr>"

definition repo_staged_world :: MiniGit where
  "repo_staged_world =
     (repo (init (MiniGit_new [''b.txt'' \<mapsto> ''world''])))\<lparr>staging_area := [(''b.txt'', blob_world)]\<rparr>"

definition repo_staged_on_c0 :: MiniGit where
  "repo_staged_on_c0 =
     \<lparr>is_initialized = True, current_branch = ''main'',
      branches = [''main'' \<mapsto> Branch_new ''main'' ''c0''],
      staging_area = [(''b.txt'', blob_world)],
      objects = [''c0'' \<mapsto> Commit_to_string commit_c0],
      refs = [''main'' \<mapsto> Branch_to_string (Branch_new ''main'' ''c0'')],
      head_file = Some ''c0'', work_tree = [''a.txt'' \<mapsto> ''base'', ''b.txt'' \<mapsto> ''world'']\<rparr>"

section \<open>Properties\<close>

subsection \<open>Lines, numbers and positions\<close>

lemma split_Nil: "split [] d = []"
  by (simp add: split.simps)

lemma split_line: "d \<notin> set l \<Longrightarrow> split (l @ d # rest) d = l # split rest d"
proof -
  assume a: "d \<notin> set l"
  then have t: "takeWhile (\<lambda>c. c \<noteq> d) (l @ d # rest) = l"
    by (induction l) auto
  from a have dw: "dropWhile (\<lambda>c. c \<noteq> d) (l @ d # rest) = d # rest"
    by (induction l) auto
  show ?thesis
    by (subst split.simps) (simp add: t dw)
qed

lemma split_last: "d \<notin> set l \<Longrightarrow> l \<noteq> [] \<Longrightarrow> split l d = [l]"
proof -
  assume a: "d \<notin> set l" and b: "l \<noteq> []"
  from a have t: "takeWhile (\<lambda>c. c \<noteq> d) l = l"
    by (induction l) auto
  from a have dw: "dropWhile (\<lambda>c. c \<noteq> d) l = []"
    by (induction l) auto
  show ?thesis
    by (subst split.simps) (simp add: t dw b split_Nil)
qed

lemma split_nonempty: "s \<noteq> [] \<Longrightarrow> split s d \<noteq> []"
  by (subst split.simps) simp

lemma str_find_line:
  "c \<notin> set l \<Longrightarrow> str_find (pre @ l @ c # rest) c (length pre) = length pre + length l"
proof -
  assume a: "c \<notin> set l"
  then have t: "takeWhile (\<lambda>x. x \<noteq> c) (l @ c # rest) = l"
    by (induction l) auto
  show ?thesis
    by (simp add: str_find_def t)
qed

lemma of_char_digit_char: "n < 10 \<Longrightarrow> (of_char (digit_char n) :: nat) = 48 + n"
  by (simp add: digit_char_def)

lemma is_digit_digit_char: "n < 10 \<Longrightarrow> is_digit (digit_char n)"
  by (simp add: is_digit_def of_char_digit_char)

lemma digit_val_digit_char: "n < 10 \<Longrightarrow> digit_val (digit_char n) = n"
  by (simp add: digit_val_def of_char_digit_char)

lemma is_digit_not_special:
  assumes "is_digit c"
  shows "\<not> is_space c" and "c \<noteq> CHR ''-''" and "c \<noteq> CHR ''+''" and "c \<noteq> nl"
  using assms by (auto simp: is_digit_def is_space_def)

lemma to_dec_digits: "\<forall>c \<in> set (to_dec n). is_digit c"
proof (induction n rule: to_dec.induct)
  case (1 n)
  show ?case
  proof (cases "n < 10")
    case True
    then show ?thesis by (subst to_dec.simps) (simp add: is_digit_digit_char)
  next
    case False
    with 1 show ?thesis by (subst to_dec.simps) (simp add: is_digit_digit_char)
  qed
qed

lemma to_dec_nonempty: "to_dec n \<noteq> []"
  by (subst to_dec.simps) simp

lemma dec_val_snoc: "dec_val (ds @ [c]) = dec_val ds * 10 + digit_val c"
  by (simp add: dec_val_def)

lemma dec_val_to_dec: "dec_val (to_dec n) = n"
proof (induction n rule: to_dec.induct)
  case (1 n)
  show ?case
  proof (cases "n < 10")
    case True
    then show ?thesis by (subst to_dec.simps) (simp add: dec_val_def digit_val_digit_char)
  next
    case False
    with 1 show ?thesis by (subst to_dec.simps) (simp add: dec_val_snoc digit_val_digit_char)
  qed
qed

lemma sign_and_digits_digits:
  assumes "\<forall>c \<in> set ds. is_digit c" and "ds \<noteq> []"
  shows "sign_and_digits ds = (False, ds)"
proof -
  from assms obtain c r where ds: "ds = c # r" by (cases ds) auto
  with assms have c: "is_digit c" by simp
  from assms have tw: "takeWhile is_digit ds = ds" by simp
  from c have "dropWhile is_space ds = ds" using is_digit_not_special(1) ds by simp
  with c tw ds show ?thesis
    using is_digit_not_special(2,3) [OF c] by (simp add: sign_and_digits_def)
qed

lemma stoul_to_dec: "n < 2 ^ 64 \<Longrightarrow> stoul (to_dec n) = Inr n"
  by (simp add: stoul_def sign_and_digits_digits to_dec_digits to_dec_nonempty dec_val_to_dec)

lemma nl_notin_to_dec: "nl \<notin> set (to_dec n)"
  using to_dec_digits [of n] is_digit_not_special(4) by blast


lemma size_add_small: "a + b < 2 ^ 64 \<Longrightarrow> size_add a b = a + b"
  by (simp add: size_add_def)

lemma starts_with_append: "starts_with (p @ s) p"
  by (simp add: starts_with_def)

lemma content_start_lines:
  assumes l0: "nl \<notin> set l0" and l1: "nl \<notin> set l1" and l2: "nl \<notin> set l2"
    and len: "length (l0 @ nl # l1 @ nl # l2 @ nl # rest) < 2 ^ 64"
  shows "size_add (str_find (l0 @ nl # l1 @ nl # l2 @ nl # rest) nl
           (size_add (str_find (l0 @ nl # l1 @ nl # l2 @ nl # rest) nl
              (size_add (str_find (l0 @ nl # l1 @ nl # l2 @ nl # rest) nl 0) 1)) 1)) 1
         = length l0 + length l1 + length l2 + 3"
proof -
  let ?d = "l0 @ nl # l1 @ nl # l2 @ nl # rest"
  have f1: "str_find ?d nl 0 = length l0"
    using str_find_line [OF l0, of "[]" "l1 @ nl # l2 @ nl # rest"] by simp
  have a1: "size_add (length l0) 1 = length l0 + 1"
    using len by (intro size_add_small) simp
  have f2: "str_find ?d nl (length l0 + 1) = length l0 + 1 + length l1"
    using str_find_line [OF l1, of "l0 @ [nl]" "l2 @ nl # rest"] by simp
  have a2: "size_add (length l0 + 1 + length l1) 1 = length l0 + 1 + length l1 + 1"
    using len by (intro size_add_small) simp
  have f3: "str_find ?d nl (length l0 + 1 + length l1 + 1)
              = length l0 + 1 + length l1 + 1 + length l2"
    using str_find_line [OF l2, of "l0 @ nl # l1 @ [nl]" rest] by simp
  have a3: "size_add (length l0 + 1 + length l1 + 1 + length l2) 1
              = length l0 + 1 + length l1 + 1 + length l2 + 1"
    using len by (intro size_add_small) simp
  have "size_add (str_find ?d nl (size_add (str_find ?d nl (size_add (str_find ?d nl 0) 1)) 1)) 1
          = length l0 + 1 + length l1 + 1 + length l2 + 1"
    by (simp only: f1 a1 f2 a2 f3 a3)
  then show ?thesis
    by simp
qed

lemma Blob_from_string_lines:
  assumes l0: "nl \<notin> set h" and l1: "nl \<notin> set f" and n: "n < 2 ^ 64"
    and len: "length (''blob '' @ h @ nl # ''filename '' @ f @ nl # ''content '' @ to_dec n @ nl # rest) < 2 ^ 64"
  shows "Blob_from_string (''blob '' @ h @ nl # ''filename '' @ f @ nl # ''content '' @ to_dec n @ nl # rest)
         = (if rest = [] then Inr None
            else Inr (Some \<lparr>b_hash = h, b_content = rest, b_filename = f\<rparr>))"
proof -
  define l0 where "l0 = ''blob '' @ h"
  define l1 where "l1 = ''filename '' @ f"
  define l2 where "l2 = ''content '' @ to_dec n"
  define d where "d = l0 @ nl # l1 @ nl # l2 @ nl # rest"
  have d_eq: "''blob '' @ h @ nl # ''filename '' @ f @ nl # ''content '' @ to_dec n @ nl # rest = d"
    by (simp add: d_def l0_def l1_def l2_def)
  have n0: "nl \<notin> set l0" using l0 by (simp add: l0_def)
  have n1: "nl \<notin> set l1" using l1 by (simp add: l1_def)
  have n2: "nl \<notin> set l2" using nl_notin_to_dec [of n] by (simp add: l2_def)
  have sp: "split d nl = l0 # l1 # l2 # split rest nl"
    unfolding d_def using n0 n1 n2 by (simp add: split_line)
  have t0: "starts_with l0 ''blob ''" "drop 5 l0 = h"
    by (simp_all add: l0_def starts_with_def)
  have t1: "starts_with l1 ''filename ''" "drop 9 l1 = f"
    by (simp_all add: l1_def starts_with_def)
  have t2: "starts_with l2 ''content ''" "drop 8 l2 = to_dec n"
    by (simp_all add: l2_def starts_with_def)
  have "length d < 2 ^ 64"
    using len by (simp only: d_eq)
  then have len': "length (l0 @ nl # l1 @ nl # l2 @ nl # rest) < 2 ^ 64"
    by (simp only: d_def)
  have cs: "size_add (str_find d nl (size_add (str_find d nl (size_add (str_find d nl 0) 1)) 1)) 1
              = length l0 + length l1 + length l2 + 3"
    unfolding d_def by (rule content_start_lines [OF n0 n1 n2 len'])
  have dr: "drop (length l0 + length l1 + length l2 + 3) d = rest"
  proof -
    have "d = (l0 @ nl # l1 @ nl # l2 @ [nl]) @ rest"
      by (simp add: d_def)
    moreover have "length (l0 @ nl # l1 @ nl # l2 @ [nl]) = length l0 + length l1 + length l2 + 3"
      by simp
    ultimately show ?thesis
      by (metis append_eq_conv_conj)
  qed
  have ld: "length d = length l0 + length l1 + length l2 + 3 + length rest"
    by (simp add: d_def)
  show ?thesis
  proof (cases "rest = []")
    case True
    then have "length (split d nl) = 3" by (simp add: sp split_Nil)
    then show ?thesis
      unfolding d_eq using True by (simp add: Blob_from_string_def)
  next
    case False
    then have "split rest nl \<noteq> []" by (rule split_nonempty)
    then have l4: "\<not> length (split d nl) < 4"
      by (cases "split rest nl") (simp_all add: sp)
    have nth: "split d nl ! 0 = l0" "split d nl ! 1 = l1" "split d nl ! 2 = l2"
      by (simp_all add: sp)
    show ?thesis
      unfolding d_eq using False
      by (simp add: Blob_from_string_def Let_def l4 nth [unfolded One_nat_def] t0 t1 t2
          stoul_to_dec [OF n] cs [unfolded One_nat_def] dr ld)
  qed
qed


subsection \<open>Three-way merge of one file\<close>

text \<open>
  C7. \<^verbatim>\<open>merge_files(base, ours, theirs)\<close> returns \<open>ours\<close> when \<open>ours = theirs\<close>,
  \<open>theirs\<close> when \<open>base = ours\<close>, \<open>ours\<close> when \<open>base = theirs\<close>, and when all three
  differ it returns \<open>base\<close> followed by the conflict block: the opening marker line,
  \<open>ours\<close>, the separator marker, \<open>theirs\<close> and the closing marker.
\<close>

theorem merge_files_three_way:
  "(ours = theirs \<longrightarrow> merge_files base ours theirs = ours) \<and>
   (base = ours \<longrightarrow> merge_files base ours theirs = theirs) \<and>
   (base = theirs \<longrightarrow> merge_files base ours theirs = ours) \<and>
   (ours \<noteq> theirs \<and> base \<noteq> ours \<and> base \<noteq> theirs \<longrightarrow>
      merge_files base ours theirs =
        base @ [nl] @ ''<<<<<<< HEAD'' @ [nl] @ ours @ [nl] @ ''======='' @ [nl] @ theirs
          @ [nl] @ ''>>>>>>> MERGE'' @ [nl])"
  by (simp add: merge_files_def)

theorem merge_files_three_way_witness:
  "merge_files ''b'' ''x'' ''x'' = ''x'' \<and>
   merge_files ''b'' ''b'' ''t'' = ''t'' \<and>
   merge_files ''b'' ''o'' ''b'' = ''o'' \<and>
   merge_files ''b'' ''o'' ''t'' =
     ''b'' @ [nl] @ ''<<<<<<< HEAD'' @ [nl] @ ''o'' @ [nl] @ ''======='' @ [nl] @ ''t''
       @ [nl] @ ''>>>>>>> MERGE'' @ [nl]"
  using merge_files_three_way [of "''x''" "''x''" "''b''"]
    merge_files_three_way [of "''b''" "''t''" "''b''"]
    merge_files_three_way [of "''o''" "''b''" "''b''"]
    merge_files_three_way [of "''o''" "''t''" "''b''"]
  by simp

subsection \<open>Merging a branch that is already merged\<close>

text \<open>
  C8. When \<^verbatim>\<open>merge\<close> is called in an initialised repository with the name of an
  existing branch whose commit is the commit of \<^verbatim>\<open>HEAD\<close>, it returns true, prints
  "Already up to date", builds no commit and leaves the whole repository as it was:
  the object directory, \<^verbatim>\<open>HEAD\<close> and every branch.
\<close>

theorem merge_already_up_to_date:
  assumes "is_initialized st"
    and "branches st branch_name = Some b"
    and "load_head st = br_commit_hash b"
  shows "merge sha1_hash now branch_name st =
           Some (Inr \<lparr>returned = True, printed = [print_info ''Already up to date''],
                      created = None, repo = st\<rparr>)"
  using assms by (simp add: merge_def)

theorem merge_already_up_to_date_witness:
  "is_initialized repo_two_branches \<and>
   branches repo_two_branches ''feat'' = Some (Branch_new ''feat'' []) \<and>
   load_head repo_two_branches = br_commit_hash (Branch_new ''feat'' []) \<and>
   merge no_hash 1700000003 ''feat'' repo_two_branches =
     Some (Inr \<lparr>returned = True, printed = [print_info ''Already up to date''],
                created = None, repo = repo_two_branches\<rparr>)"
proof -
  have h1: "is_initialized repo_two_branches"
    by (simp add: repo_two_branches_def branch_def init_def MiniGit_new_def save_branch_def
        Let_def)
  have h2: "branches repo_two_branches ''feat'' = Some (Branch_new ''feat'' [])"
    by (simp add: repo_two_branches_def branch_def init_def MiniGit_new_def save_branch_def
        load_head_def Let_def)
  have h3: "load_head repo_two_branches = br_commit_hash (Branch_new ''feat'' [])"
    by (simp add: repo_two_branches_def branch_def init_def MiniGit_new_def save_branch_def
        load_head_def Branch_new_def Let_def)
  from merge_already_up_to_date [OF h1 h2 h3] h1 h2 h3 show ?thesis
    by simp
qed

subsection \<open>Checking out a branch\<close>

text \<open>
  C10. When \<^verbatim>\<open>checkout\<close> is called in an initialised repository with the name of an
  existing branch whose commit hash is empty, it returns true and makes that branch the
  current one, and the \<^verbatim>\<open>HEAD\<close> file is left as it was. \<^verbatim>\<open>HEAD\<close> is rewritten only
  when the branch holds a non-empty commit hash, and then with that hash.
\<close>

theorem checkout_branch_head:
  assumes "is_initialized st"
    and "branches st target = Some b"
  shows "(br_commit_hash b = [] \<longrightarrow>
            checkout target st =
              Inr \<lparr>returned = True,
                   printed = [print_success (''Switched to branch '' @ [quote] @ target @ [quote])],
                   created = None, repo = st\<lparr>current_branch := target\<rparr>\<rparr>) \<and>
         (br_commit_hash b \<noteq> [] \<longrightarrow>
            checkout target st =
              Inr \<lparr>returned = True,
                   printed = [print_success (''Switched to branch '' @ [quote] @ target @ [quote])],
                   created = None,
                   repo = st\<lparr>current_branch := target, head_file := Some (br_commit_hash b)\<rparr>\<rparr>)"
  using assms by (simp add: checkout_def save_head_def)

theorem checkout_branch_head_witness:
  "is_initialized repo_two_branches \<and>
   branches repo_two_branches ''feat'' = Some (Branch_new ''feat'' []) \<and>
   br_commit_hash (Branch_new ''feat'' []) = [] \<and>
   checkout ''feat'' repo_two_branches =
     Inr \<lparr>returned = True,
          printed = [print_success (''Switched to branch '' @ [quote] @ ''feat'' @ [quote])],
          created = None, repo = repo_two_branches\<lparr>current_branch := ''feat''\<rparr>\<rparr> \<and>
   head_file (repo_two_branches\<lparr>current_branch := ''feat''\<rparr>) = None \<and>
   is_initialized repo_diverged \<and>
   branches repo_diverged ''feat'' = Some (Branch_new ''feat'' ''c2'') \<and>
   br_commit_hash (Branch_new ''feat'' ''c2'') \<noteq> [] \<and>
   checkout ''feat'' repo_diverged =
     Inr \<lparr>returned = True,
          printed = [print_success (''Switched to branch '' @ [quote] @ ''feat'' @ [quote])],
          created = None,
          repo = repo_diverged\<lparr>current_branch := ''feat'', head_file := Some ''c2''\<rparr>\<rparr>"
proof -
  have h1: "is_initialized repo_two_branches"
    by (simp add: repo_two_branches_def branch_def init_def MiniGit_new_def save_branch_def
        Let_def)
  have h2: "branches repo_two_branches ''feat'' = Some (Branch_new ''feat'' [])"
    by (simp add: repo_two_branches_def branch_def init_def MiniGit_new_def save_branch_def
        load_head_def Let_def)
  have h3: "br_commit_hash (Branch_new ''feat'' []) = []"
    by (simp add: Branch_new_def)
  have h4: "head_file (repo_two_branches\<lparr>current_branch := ''feat''\<rparr>) = None"
    by (simp add: repo_two_branches_def branch_def init_def MiniGit_new_def save_branch_def
        Let_def)
  have g1: "is_initialized repo_diverged"
    by (simp add: repo_diverged_def)
  have g2: "branches repo_diverged ''feat'' = Some (Branch_new ''feat'' ''c2'')"
    by (simp add: repo_diverged_def)
  have g3: "br_commit_hash (Branch_new ''feat'' ''c2'') = ''c2''"
    by (simp add: Branch_new_def)
  from checkout_branch_head [OF h1 h2] checkout_branch_head [OF g1 g2] h1 h2 h3 h4 g1 g2 g3
  show ?thesis
    by simp
qed

subsection \<open>Encoding and decoding a blob\<close>

text \<open>
  C9, as amended. For a blob whose hash and file name hold no line feed (and whose record
  fits a \<^verbatim>\<open>std::string\<close>): when the content is not empty, decoding the encoded blob
  succeeds and gives the blob back, hash, content and file name; when the content is
  empty, decoding the encoded blob returns null, the record having three lines.
\<close>

theorem blob_round_trip:
  assumes "nl \<notin> set (b_hash b)" and "nl \<notin> set (b_filename b)"
    and "length (Blob_to_string b) < 2 ^ 64"
  shows "(b_content b \<noteq> [] \<longrightarrow> Blob_from_string (Blob_to_string b) = Inr (Some b)) \<and>
         (b_content b = [] \<longrightarrow> Blob_from_string (Blob_to_string b) = Inr None
            \<and> length (split (Blob_to_string b) nl) = 3)"
proof -
  have shape: "Blob_to_string b =
      ''blob '' @ b_hash b @ nl # ''filename '' @ b_filename b @ nl #
      ''content '' @ to_dec (length (b_content b)) @ nl # b_content b"
    by (simp add: Blob_to_string_def)
  have n: "length (b_content b) < 2 ^ 64"
    using assms(3) by (simp add: Blob_to_string_def)
  have len: "length (''blob '' @ b_hash b @ nl # ''filename '' @ b_filename b @ nl #
      ''content '' @ to_dec (length (b_content b)) @ nl # b_content b) < 2 ^ 64"
    using assms(3) shape by simp
  have r: "Blob_from_string (Blob_to_string b) =
      (if b_content b = [] then Inr None
       else Inr (Some \<lparr>b_hash = b_hash b, b_content = b_content b, b_filename = b_filename b\<rparr>))"
    unfolding shape by (rule Blob_from_string_lines [OF assms(1) assms(2) n len])
  have three: "b_content b = [] \<Longrightarrow> length (split (Blob_to_string b) nl) = 3"
  proof -
    assume e: "b_content b = []"
    have "split (Blob_to_string b) nl =
        (''blob '' @ b_hash b) # (''filename '' @ b_filename b)
          # (''content '' @ to_dec (length (b_content b))) # split (b_content b) nl"
      using assms(1,2) nl_notin_to_dec [of "length (b_content b)"]
        split_line [of nl "''blob '' @ b_hash b"]
        split_line [of nl "''filename '' @ b_filename b"]
        split_line [of nl "''content '' @ to_dec (length (b_content b))"]
      by (simp add: shape)
    with e show ?thesis by (simp add: split_Nil)
  qed
  show ?thesis using r three by simp
qed

theorem blob_round_trip_witness:
  "nl \<notin> set (b_hash blob_hello) \<and> nl \<notin> set (b_filename blob_hello) \<and>
   length (Blob_to_string blob_hello) < 2 ^ 64 \<and> b_content blob_hello \<noteq> [] \<and>
   Blob_from_string (Blob_to_string blob_hello) = Inr (Some blob_hello) \<and>
   nl \<notin> set (b_hash blob_empty) \<and> nl \<notin> set (b_filename blob_empty) \<and>
   length (Blob_to_string blob_empty) < 2 ^ 64 \<and> b_content blob_empty = [] \<and>
   Blob_from_string (Blob_to_string blob_empty) = Inr None \<and>
   length (split (Blob_to_string blob_empty) nl) = 3"
proof -
  have h1: "nl \<notin> set (b_hash blob_hello)" by (simp add: blob_hello_def)
  have h2: "nl \<notin> set (b_filename blob_hello)" by (simp add: blob_hello_def)
  have h3: "length (Blob_to_string blob_hello) < 2 ^ 64"
    by (simp add: blob_hello_def Blob_to_string_def to_dec.simps)
  have h4: "b_content blob_hello \<noteq> []" by (simp add: blob_hello_def)
  have e1: "nl \<notin> set (b_hash blob_empty)" by (simp add: blob_empty_def)
  have e2: "nl \<notin> set (b_filename blob_empty)" by (simp add: blob_empty_def)
  have e3: "length (Blob_to_string blob_empty) < 2 ^ 64"
    by (simp add: blob_empty_def Blob_to_string_def to_dec.simps)
  have e4: "b_content blob_empty = []" by (simp add: blob_empty_def)
  from blob_round_trip [OF h1 h2 h3] blob_round_trip [OF e1 e2 e3] h1 h2 h3 h4 e1 e2 e3 e4
  show ?thesis by simp
qed

theorem blob_round_trip_counterexample:
  "b_content blob_two_line_name \<noteq> [] \<and>
   Blob_from_string (Blob_to_string blob_two_line_name) = Inr None \<and>
   b_content blob_header_name = [] \<and>
   Blob_from_string (Blob_to_string blob_header_name) =
     Inr (Some \<lparr>b_hash = ''da39a3ee5e6b4b0d3255bfef95601890afd80709'',
                b_content = ''whatever'' @ [nl] @ ''content 0'' @ [nl], b_filename = ''f1''\<rparr>)"
  by code_simp

subsection \<open>Decoding stored records\<close>











subsection \<open>History graph\<close>

lemma load_commit_cycle: "load_commit repo_cycle ''a'' = Inr (Some commit_self_parent)"
  by code_simp

lemma ancestors_loop_cycle_aux:
  assumes run: "ancestors_loop st acc cur = Some y"
  shows "\<not> (st = repo_cycle \<and> cur = ''a'')"
proof (rule ancestors_loop.raw_induct
    [where P = "\<lambda>st acc cur y. \<not> (st = repo_cycle \<and> cur = ''a'')", OF _ run])
  fix f :: "MiniGit \<Rightarrow> string list \<Rightarrow> string \<Rightarrow> (failure + string list) option"
  fix st acc cur y
  assume IH: "\<And>st' acc' cur' y'. f st' acc' cur' = Some y' \<Longrightarrow> \<not> (st' = repo_cycle \<and> cur' = ''a'')"
  assume body: "(if cur = [] then Some (Inr acc)
      else case load_commit st cur of
          Inl e \<Rightarrow> Some (Inl e)
        | Inr None \<Rightarrow> Some (Inr acc)
        | Inr (Some c) \<Rightarrow>
            if is_initial_commit c then Some (Inr (acc @ [cur]))
            else f st (acc @ [cur])
                   (case parent_hashes c of [] \<Rightarrow> [] | parent # others \<Rightarrow> parent)) = Some y"
  show "\<not> (st = repo_cycle \<and> cur = ''a'')"
  proof
    assume a: "st = repo_cycle \<and> cur = ''a''"
    with body have "f repo_cycle (acc @ [''a'']) ''a'' = Some y"
      by (simp add: load_commit_cycle is_initial_commit_def commit_self_parent_def)
    from IH [OF this] show False by simp
  qed
qed

lemma ancestors_loop_cycle: "ancestors_loop repo_cycle acc ''a'' = None"
  using ancestors_loop_cycle_aux [of repo_cycle acc "''a''"]
  by (cases "ancestors_loop repo_cycle acc ''a''") auto

text \<open>
  C5. The claim says that the ancestors traversal ends on every store, a cycle guard
  bounding its steps. \<^verbatim>\<open>get_commit_ancestors\<close> has no such guard (the loop of
  \<^verbatim>\<open>log\<close> has one): on the store whose commit \<open>a\<close> names itself as parent, the
  traversal from \<open>a\<close> never returns.
\<close>

theorem ancestors_of_cycle_never_return: "get_commit_ancestors repo_cycle ''a'' = None"
  by (simp add: get_commit_ancestors_def ancestors_loop_cycle)








subsection \<open>Tables in key order\<close>

lemma map_of_map_assign: "map_of (map_assign k v m) = (map_of m)(k \<mapsto> v)"
  by (induction m) (auto simp: fun_eq_iff)




subsection \<open>What a commit records\<close>

lemma add_staged_files_commit:
  "add_staged_files stg (c, st) = (c', st') \<Longrightarrow>
     c_hash c' = c_hash c \<and> c_message c' = c_message c \<and> c_author c' = c_author c \<and>
     c_timestamp c' = c_timestamp c \<and> parent_hashes c' = parent_hashes c"
  by (induction stg "(c, st)" arbitrary: c st rule: add_staged_files.induct)
     (auto simp: add_file_def)

lemma add_staged_files_table:
  "add_staged_files stg (c, st) = (c', st') \<Longrightarrow> distinct (map fst stg) \<Longrightarrow>
     map_of (file_blobs c') f =
       (case map_of stg f of None \<Rightarrow> map_of (file_blobs c) f | Some b \<Rightarrow> Some (b_hash b))"
proof (induction stg "(c, st)" arbitrary: c st rule: add_staged_files.induct)
  case (1 commit st)
  then show ?case by simp
next
  case (2 filename blob rest commit st)
  from 2(2) have run: "add_staged_files rest (add_file filename (b_hash blob) commit, save_blob blob st) = (c', st')"
    by simp
  from 2(3) have d: "distinct (map fst rest)" and nin: "filename \<notin> fst ` set rest"
    by auto
  from nin have none: "map_of rest filename = None"
    by (simp add: map_of_eq_None_iff)
  from 2(1) [OF run d]
  have "map_of (file_blobs c') f =
       (case map_of rest f of
          None \<Rightarrow> map_of (file_blobs (add_file filename (b_hash blob) commit)) f
        | Some b \<Rightarrow> Some (b_hash b))" .
  then show ?case
    using none by (auto simp: add_file_def map_of_map_assign split: option.splits)
qed

lemma add_parent_hash: "c_hash (add_parent p c) = c_hash c"
  by (simp add: add_parent_def)

lemma commit_never_sets_hash:
  assumes "created (commit now message st) = Some c"
  shows "c_hash c = []"
proof -
  define commit1 where "commit1 =
     (if load_head st \<noteq> [] then add_parent (load_head st) (Commit_new message ''user'' now)
      else Commit_new message ''user'' now)"
  obtain commit2 st1 where run: "add_staged_files (staging_area st) (commit1, st) = (commit2, st1)"
    by (cases "add_staged_files (staging_area st) (commit1, st)") auto
  have "c_hash commit1 = []"
    by (simp add: commit1_def add_parent_hash Commit_new_def)
  with add_staged_files_commit [OF run] have "c_hash commit2 = []" by simp
  moreover from assms run have "c = commit2"
    by (auto simp: commit_def not_a_repository_def Let_def commit1_def split: if_splits)
  ultimately show ?thesis by simp
qed

text \<open>
  C2. The claim says that the hash of a commit is computed from its encoded record, so
  that distinct commits in the object directory have distinct, non-empty hashes. The
  constructor leaves the hash empty and neither \<^verbatim>\<open>commit\<close> nor \<^verbatim>\<open>merge\<close> sets it
  (\<^verbatim>\<open>compute_hash\<close> and \<^verbatim>\<open>set_hash\<close> are never called on a new commit): two first
  commits that differ in message, time and files both get the empty hash, \<^verbatim>\<open>HEAD\<close> and
  the branch are set to the empty string, and no commit can be loaded under it.
\<close>

theorem commit_hash_left_empty:
  "created (commit 1700000000 ''first'' repo_staged_hello) =
     Some \<lparr>c_hash = [], c_message = ''first'', c_author = ''user'', c_timestamp = 1700000000,
            parent_hashes = [],
            file_blobs = [(''a.txt'', ''aaf4c61ddcc5e8a2dabede0f3b482cd9aea9434d'')]\<rparr> \<and>
   created (commit 1700000001 ''second'' repo_staged_world) =
     Some \<lparr>c_hash = [], c_message = ''second'', c_author = ''user'', c_timestamp = 1700000001,
            parent_hashes = [],
            file_blobs = [(''b.txt'', ''7c211433f02071597741e6ff5a8ea34789abbf43'')]\<rparr> \<and>
   head_file (repo (commit 1700000000 ''first'' repo_staged_hello)) = Some [] \<and>
   map_option br_commit_hash (branches (repo (commit 1700000000 ''first'' repo_staged_hello)) ''main'')
     = Some [] \<and>
   load_commit (repo (commit 1700000000 ''first'' repo_staged_hello)) [] = Inr None"
  by code_simp

text \<open>
  C3, as amended. A successful \<^verbatim>\<open>commit\<close> builds a commit whose file table holds exactly
  the staged files, each with the hash of its staged blob, and whose parent list is
  \<^verbatim>\<open>HEAD\<close> when \<^verbatim>\<open>HEAD\<close> is not empty. Files of the parent commit that are not staged
  are not in the new file table. The staging area is a \<^verbatim>\<open>std::map\<close>: its keys are
  distinct.
\<close>

theorem commit_file_table_is_staging_area:
  assumes "is_initialized st" and "staging_area st \<noteq> []"
    and "distinct (map fst (staging_area st))"
  shows "\<exists>c. returned (commit now message st) \<and> created (commit now message st) = Some c \<and>
           (\<forall>f. map_of (file_blobs c) f = map_option b_hash (map_of (staging_area st) f)) \<and>
           parent_hashes c = (if load_head st = [] then [] else [load_head st])"
proof -
  define commit1 where "commit1 =
     (if load_head st \<noteq> [] then add_parent (load_head st) (Commit_new message ''user'' now)
      else Commit_new message ''user'' now)"
  obtain commit2 st1 where run: "add_staged_files (staging_area st) (commit1, st) = (commit2, st1)"
    by (cases "add_staged_files (staging_area st) (commit1, st)") auto
  have c1: "file_blobs commit1 = []"
    "parent_hashes commit1 = (if load_head st = [] then [] else [load_head st])"
    by (simp_all add: commit1_def add_parent_def has_parent_def Commit_new_def)
  from run assms(1,2)
  have r: "returned (commit now message st)" "created (commit now message st) = Some commit2"
    by (simp_all add: commit_def Let_def commit1_def)
  from add_staged_files_table [OF run assms(3)] c1
  have t: "\<And>f. map_of (file_blobs commit2) f = map_option b_hash (map_of (staging_area st) f)"
    by (simp split: option.splits)
  from add_staged_files_commit [OF run] c1
  have p: "parent_hashes commit2 = (if load_head st = [] then [] else [load_head st])"
    by simp
  from r t p show ?thesis by blast
qed

theorem commit_file_table_is_staging_area_witness:
  "is_initialized repo_staged_on_c0 \<and> staging_area repo_staged_on_c0 \<noteq> [] \<and>
   distinct (map fst (staging_area repo_staged_on_c0)) \<and>
   (\<exists>c. returned (commit 1700000003 ''second'' repo_staged_on_c0) \<and>
        created (commit 1700000003 ''second'' repo_staged_on_c0) = Some c \<and>
        map_of (file_blobs c) ''b.txt'' = Some (b_hash blob_world) \<and>
        map_of (file_blobs c) ''a.txt'' = None \<and>
        parent_hashes c = [''c0''])"
proof -
  have h1: "is_initialized repo_staged_on_c0" by (simp add: repo_staged_on_c0_def)
  have h2: "staging_area repo_staged_on_c0 \<noteq> []" by (simp add: repo_staged_on_c0_def)
  have h3: "distinct (map fst (staging_area repo_staged_on_c0))"
    by (simp add: repo_staged_on_c0_def)
  have h4: "load_head repo_staged_on_c0 = ''c0''"
    by (simp add: repo_staged_on_c0_def load_head_def)
  have h5: "map_of (staging_area repo_staged_on_c0) ''b.txt'' = Some blob_world"
    "map_of (staging_area repo_staged_on_c0) ''a.txt'' = None"
    by (simp_all add: repo_staged_on_c0_def)
  from commit_file_table_is_staging_area [OF h1 h2 h3, of 1700000003 "''second''"]
  obtain c where c: "returned (commit 1700000003 ''second'' repo_staged_on_c0)"
    "created (commit 1700000003 ''second'' repo_staged_on_c0) = Some c"
    "\<forall>f. map_of (file_blobs c) f = map_option b_hash (map_of (staging_area repo_staged_on_c0) f)"
    "parent_hashes c = (if load_head repo_staged_on_c0 = [] then [] else [load_head repo_staged_on_c0])"
    by blast
  from c(3) h5 have "map_of (file_blobs c) ''b.txt'' = Some (b_hash blob_world)"
    "map_of (file_blobs c) ''a.txt'' = None"
    by simp_all
  with c h1 h2 h3 h4 show ?thesis by auto
qed

theorem commit_file_table_is_staging_area_counterexample:
  "load_head repo_staged_on_c0 = ''c0'' \<and>
   load_commit repo_staged_on_c0 ''c0'' = Inr (Some commit_c0) \<and>
   file_blobs commit_c0 = [(''a.txt'', ''h1'')] \<and>
   map fst (staging_area repo_staged_on_c0) = [''b.txt''] \<and>
   returned (commit 1700000003 ''second'' repo_staged_on_c0) \<and>
   created (commit 1700000003 ''second'' repo_staged_on_c0) =
     Some \<lparr>c_hash = [], c_message = ''second'', c_author = ''user'', c_timestamp = 1700000003,
            parent_hashes = [''c0''],
            file_blobs = [(''b.txt'', ''7c211433f02071597741e6ff5a8ea34789abbf43'')]\<rparr>"
  by code_simp

subsection \<open>What a merge commit records\<close>































end
